theory Spec2Isabelle
  imports Complex_Main "HOL-Library.AList"
begin

section \<open>Python values and dictionaries\<close>

text \<open>
  The schema generator of \<^verbatim>\<open>schema/schema.py\<close> builds a nested Python dictionary out of
  the click command objects of the SAM CLI. The values it handles are modelled by one
  datatype. A dictionary is an association list in insertion order with string keys;
  \<open>None\<close>, booleans, integers, floats (as the rational the literal denotes), strings,
  lists and tuples are the other shapes a click default or a schema entry can take.

  Strings are \<open>char list\<close>. A character stands for the code point of its number, so
  the strings of the model are the Python strings over U+0000 to U+00FF; on these the
  whitespace test and the lower-casing below are Python's own.
\<close>

datatype pyval =
    PNone
  | PBool bool
  | PInt int
  | PFloat rat
  | PStr string
  | PList "pyval list"
  | PTuple "pyval list"
  | PDict "(string \<times> pyval) list"

text \<open>Python truthiness, as tested by \<^verbatim>\<open>if x:\<close>.\<close>

fun truthy :: "pyval \<Rightarrow> bool" where
  "truthy PNone = False"
| "truthy (PBool b) = b"
| "truthy (PInt i) = (i \<noteq> 0)"
| "truthy (PFloat r) = (r \<noteq> 0)"
| "truthy (PStr s) = (s \<noteq> [])"
| "truthy (PList xs) = (xs \<noteq> [])"
| "truthy (PTuple xs) = (xs \<noteq> [])"
| "truthy (PDict kvs) = (kvs \<noteq> [])"

text \<open>
  \<^verbatim>\<open>d.update(other)\<close>: every pair of \<open>other\<close>, in order, replaces the value of an existing
  key in place or is appended at the end.
\<close>

definition dict_update :: "(string \<times> pyval) list \<Rightarrow> (string \<times> pyval) list \<Rightarrow> (string \<times> pyval) list" where
  "dict_update d other = fold (\<lambda>(k, v) acc. AList.update k v acc) other d"

text \<open>\<^verbatim>\<open>d[k]\<close> read on a value that may or may not be a dictionary holding \<open>k\<close>.\<close>

fun dict_get :: "pyval \<Rightarrow> string \<Rightarrow> pyval option" where
  "dict_get (PDict kvs) k = map_of kvs k"
| "dict_get _ k = None"

text \<open>\<^verbatim>\<open>d[k1][k2]...\<close>: the value reached by a path of keys, if every step finds its key.\<close>

fun dict_path :: "pyval \<Rightarrow> string list \<Rightarrow> pyval option" where
  "dict_path v [] = Some v"
| "dict_path v (k # ks) = (case dict_get v k of None \<Rightarrow> None | Some w \<Rightarrow> dict_path w ks)"

section \<open>String operations\<close>

text \<open>
  The letters below U+0100 that have another case: \<open>A\<close> to \<open>Z\<close> and U+00C0 to U+00DE
  without the multiplication sign U+00D7, each listed at the place of its lower-case
  partner, \<open>a\<close> to \<open>z\<close> and U+00E0 to U+00FE without the division sign U+00F7.
\<close>

definition uppercase_letters :: string where
  "uppercase_letters =
     ''ABCDEFGHIJKLMNOPQRSTUVWXYZ'' @
     [CHR 0xC0, CHR 0xC1, CHR 0xC2, CHR 0xC3, CHR 0xC4, CHR 0xC5, CHR 0xC6, CHR 0xC7,
      CHR 0xC8, CHR 0xC9, CHR 0xCA, CHR 0xCB, CHR 0xCC, CHR 0xCD, CHR 0xCE, CHR 0xCF,
      CHR 0xD0, CHR 0xD1, CHR 0xD2, CHR 0xD3, CHR 0xD4, CHR 0xD5, CHR 0xD6, CHR 0xD8,
      CHR 0xD9, CHR 0xDA, CHR 0xDB, CHR 0xDC, CHR 0xDD, CHR 0xDE]"

definition lowercase_letters :: string where
  "lowercase_letters =
     ''abcdefghijklmnopqrstuvwxyz'' @
     [CHR 0xE0, CHR 0xE1, CHR 0xE2, CHR 0xE3, CHR 0xE4, CHR 0xE5, CHR 0xE6, CHR 0xE7,
      CHR 0xE8, CHR 0xE9, CHR 0xEA, CHR 0xEB, CHR 0xEC, CHR 0xED, CHR 0xEE, CHR 0xEF,
      CHR 0xF0, CHR 0xF1, CHR 0xF2, CHR 0xF3, CHR 0xF4, CHR 0xF5, CHR 0xF6, CHR 0xF8,
      CHR 0xF9, CHR 0xFA, CHR 0xFB, CHR 0xFC, CHR 0xFD, CHR 0xFE]"

text \<open>\<^verbatim>\<open>c.isupper()\<close>\<close>

definition is_upper :: "char \<Rightarrow> bool" where
  "is_upper c = (c \<in> set uppercase_letters)"

text \<open>
  \<^verbatim>\<open>c.islower()\<close>: the letters above and the lower-case characters without an
  upper-case partner below U+0100 (U+00AA, U+00B5, U+00BA, U+00DF, U+00FF).
\<close>

definition is_lower :: "char \<Rightarrow> bool" where
  "is_lower c =
     (c \<in> set lowercase_letters \<or> c \<in> set [CHR 0xAA, CHR 0xB5, CHR 0xBA, CHR 0xDF, CHR 0xFF])"

text \<open>\<^verbatim>\<open>c.lower()\<close>\<close>

definition lower_char :: "char \<Rightarrow> char" where
  "lower_char c =
     (case map_of (zip uppercase_letters lowercase_letters) c of None \<Rightarrow> c | Some l \<Rightarrow> l)"

text \<open>
  The title case of a character. Python gives U+00B5, U+00DF and U+00FF a title case
  outside U+0000 to U+00FF; these three are left as they are here, so \<open>title\<close> below is
  Python's \<^verbatim>\<open>str.title\<close> on every string in which none of the three starts a word.
\<close>

definition upper_char :: "char \<Rightarrow> char" where
  "upper_char c =
     (case map_of (zip lowercase_letters uppercase_letters) c of None \<Rightarrow> c | Some u \<Rightarrow> u)"

text \<open>\<^verbatim>\<open>s.lower()\<close>\<close>

definition lower :: "string \<Rightarrow> string" where
  "lower s = map lower_char s"

text \<open>
  \<^verbatim>\<open>s.title()\<close>: a cased character that follows an uncased one is put in upper case, a
  cased character that follows a cased one in lower case.
\<close>

fun title_from :: "bool \<Rightarrow> string \<Rightarrow> string" where
  "title_from prev [] = []"
| "title_from prev (c # cs) =
     (if is_lower c then (if prev then c else upper_char c) # title_from True cs
      else if is_upper c then (if prev then lower_char c else c) # title_from True cs
      else c # title_from False cs)"

definition title :: "string \<Rightarrow> string" where
  "title s = title_from False s"

text \<open>
  \<^verbatim>\<open>s.split(sep)\<close> for a one-character separator: the result is never empty, and an
  empty string gives one empty segment.
\<close>

fun split :: "char \<Rightarrow> string \<Rightarrow> string list" where
  "split sep [] = [[]]"
| "split sep (c # cs) =
     (if c = sep then [] # split sep cs
      else (case split sep cs of
              [] \<Rightarrow> [[c]]
            | w # ws \<Rightarrow> (c # w) # ws))"

text \<open>\<^verbatim>\<open>sep.join(xs)\<close>\<close>

fun join :: "string \<Rightarrow> string list \<Rightarrow> string" where
  "join sep [] = []"
| "join sep [x] = x"
| "join sep (x # y # ys) = x @ sep @ join sep (y # ys)"

text \<open>
  \<^verbatim>\<open>c.isspace()\<close>, which gives the characters \<^verbatim>\<open>str.strip()\<close> removes when it is called
  without an argument: tab, line feed, vertical tab, form feed, carriage return, the four
  separators U+001C to U+001F, the space, the next-line control U+0085 and the no-break
  space U+00A0.
\<close>

definition is_space :: "char \<Rightarrow> bool" where
  "is_space c = (c \<in> set [CHR 0x09, CHR 0x0A, CHR 0x0B, CHR 0x0C, CHR 0x0D,
                            CHR 0x1C, CHR 0x1D, CHR 0x1E, CHR 0x1F, CHR 0x20, CHR 0x85,
                            CHR 0xA0])"

text \<open>\<^verbatim>\<open>s.strip(chars)\<close> and \<^verbatim>\<open>s.strip()\<close>, with the stripped characters as a predicate.\<close>

definition strip :: "(char \<Rightarrow> bool) \<Rightarrow> string \<Rightarrow> string" where
  "strip P s = rev (dropWhile P (rev (dropWhile P s)))"

text \<open>\<^verbatim>\<open>s.replace(c, "")\<close> for a one-character \<open>c\<close>.\<close>

definition remove_char :: "char \<Rightarrow> string \<Rightarrow> string" where
  "remove_char c s = filter (\<lambda>x. x \<noteq> c) s"

text \<open>\<^verbatim>\<open>x or ""\<close> on an optional string.\<close>

definition or_empty :: "string option \<Rightarrow> string" where
  "or_empty x = (case x of None \<Rightarrow> [] | Some s \<Rightarrow> s)"

text \<open>\<^verbatim>\<open>a or b\<close> on optional strings: \<open>a\<close> when it is a non-empty string, else \<open>b\<close>.\<close>

definition or_else :: "string option \<Rightarrow> string option \<Rightarrow> string option" where
  "or_else a b = (case a of None \<Rightarrow> b | Some s \<Rightarrow> if s = [] then b else a)"

section \<open>The click objects read by the generator\<close>

text \<open>
  A click parameter type: its \<open>name\<close> attribute and, when the type is an instance of
  \<^verbatim>\<open>click.Choice\<close>, the choices it was built with (click declares them a sequence of
  strings).
\<close>

record ParamType =
  type_name :: string
  type_choices :: "string list option"

text \<open>
  A click parameter: \<open>is_Option\<close> says whether it is an instance of
  \<^verbatim>\<open>click.core.Option\<close> (an argument is not).
\<close>

record Parameter =
  param_name :: "string option"
  is_Option :: bool
  param_type :: ParamType
  param_help :: "string option"
  param_default :: pyval

text \<open>
  A click command. \<open>cmd_commands\<close> is \<open>Some\<close> exactly for an instance of
  \<^verbatim>\<open>click.core.Group\<close>, and then holds the group's \<open>commands\<close> dictionary in order.
\<close>

datatype Command = Command
  (cmd_name: "string option")
  (cmd_help: "string option")
  (cmd_short_help: "string option")
  (cmd_params: "Parameter list")
  (cmd_commands: "(string \<times> Command) list option")

text \<open>An imported module: its \<^verbatim>\<open>__name__\<close> and its \<^verbatim>\<open>cli\<close> attribute, if it has one.\<close>

record Module =
  mod_name :: string
  mod_cli :: "Command option"

datatype error = ModuleNotFoundError | AttributeError

section \<open>The schema records\<close>

record SamCliParameterSchema =
  name :: string
  type :: string
  description :: string
  default :: pyval
  items :: "string option"
  choices :: "string list option"

record SamCliCommandSchema =
  command_name :: string
  command_description :: string
  parameters :: "SamCliParameterSchema list"

text \<open>\<^verbatim>\<open>SamCliParameterSchema.to_schema\<close>\<close>

definition param_to_schema :: "SamCliParameterSchema \<Rightarrow> (string \<times> pyval) list" where
  "param_to_schema p =
     (let param = dict_update []
            [(''title'', PStr (name p)), (''type'', PStr (type p)),
             (''description'', PStr (description p))];
          param = (if truthy (default p)
                   then dict_update param [(''default'', default p)] else param);
          param = (case items p of
                     None \<Rightarrow> param
                   | Some i \<Rightarrow> if i \<noteq> []
                       then dict_update param [(''items'', PDict [(''type'', PStr i)])]
                       else param);
          param = (case choices p of
                     None \<Rightarrow> param
                   | Some cs \<Rightarrow> if cs \<noteq> []
                       then dict_update param [(''enum'', PList (map PStr cs))]
                       else param)
      in param)"

definition COMMANDS_TO_EXCLUDE :: "string list" where
  "COMMANDS_TO_EXCLUDE =
     [''deploy'', ''build'', ''local'', ''validate'', ''package'', ''init'', ''delete'',
      ''bootstrap'', ''list'', ''traces'', ''sync'', ''publish'', ''pipeline'', ''logs'',
      ''remote'']"

text \<open>\<^verbatim>\<open>split_cmd_name[0] in COMMANDS_TO_EXCLUDE\<close>; the split is never empty.\<close>

definition exclude_params :: "SamCliCommandSchema \<Rightarrow> bool" where
  "exclude_params c =
     (case split CHR ''_'' (command_name c) of
        [] \<Rightarrow> False
      | seg # _ \<Rightarrow> seg \<in> set COMMANDS_TO_EXCLUDE)"

definition formatted_cmd_name :: "SamCliCommandSchema \<Rightarrow> string" where
  "formatted_cmd_name c = join '' '' (split CHR ''_'' (command_name c))"

definition formatted_params_list :: "SamCliCommandSchema \<Rightarrow> string" where
  "formatted_params_list c =
     (if \<not> exclude_params c
      then ''* '' @ join [CHR 0x0A, CHR ''*'', CHR '' '']
             (map (\<lambda>p. name p @ [CHR '':'', CHR 0x0A] @ description p) (parameters c))
      else [])"

definition params_description :: "SamCliCommandSchema \<Rightarrow> string" where
  "params_description c =
     ''Available parameters for the '' @ formatted_cmd_name c @ '' command:'' @ [CHR 0x0A]
       @ formatted_params_list c"

text \<open>
  The dictionary comprehension \<^verbatim>\<open>{param.name: param.to_schema() for param in ...}\<close>:
  the entries are stored one after the other, a repeated name replacing the value stored
  for it.
\<close>

definition params_properties :: "SamCliParameterSchema list \<Rightarrow> (string \<times> pyval) list" where
  "params_properties ps =
     fold (\<lambda>p acc. AList.update (name p) (PDict (param_to_schema p)) acc) ps []"

text \<open>The value stored under the command's name by \<^verbatim>\<open>SamCliCommandSchema.to_schema\<close>.\<close>

definition command_fragment :: "SamCliCommandSchema \<Rightarrow> pyval" where
  "command_fragment c =
     PDict
       [(''title'', PStr (title (formatted_cmd_name c) @ '' command'')),
        (''description'', PStr (command_description c)),
        (''properties'', PDict
           [(''parameters'', PDict
              [(''title'', PStr (''Parameters for the '' @ formatted_cmd_name c @ '' command'')),
               (''description'', PStr (params_description c)),
               (''type'', PStr ''object''),
               (''properties'',
                  PDict (if \<not> exclude_params c then params_properties (parameters c) else []))])]),
        (''required'', PList [PStr ''parameters''])]"

text \<open>\<^verbatim>\<open>SamCliCommandSchema.to_schema\<close>\<close>

definition command_to_schema :: "SamCliCommandSchema \<Rightarrow> (string \<times> pyval) list" where
  "command_to_schema c = [(command_name c, command_fragment c)]"

section \<open>Normalising parameters\<close>

text \<open>
  \<^verbatim>\<open>clean_text\<close>. The argument may be \<open>None\<close>; \<^verbatim>\<open>"\b"\<close> is the backspace U+0008 and
  \<^verbatim>\<open>"\n"\<close> the line feed U+000A.
\<close>

definition clean_text :: "string option \<Rightarrow> string" where
  "clean_text text =
     (case text of
        None \<Rightarrow> []
      | Some s \<Rightarrow>
          if s = [] then []
          else strip is_space (strip (\<lambda>c. c = CHR 0x0A) (remove_char (CHR 0x08) s)))"

definition formatted_param_type :: "Parameter \<Rightarrow> string" where
  "formatted_param_type param =
     (let param_type = lower (type_name (param_type param))
      in if param_type \<in> set [''text'', ''path'', ''choice'', ''filename'', ''directory'']
         then ''string''
         else if param_type = ''list'' then ''array''
         else if param_type \<noteq> [] then param_type else ''string'')"

definition format_param :: "Parameter \<Rightarrow> SamCliParameterSchema" where
  "format_param param =
     (let formatted_param =
            \<lparr> name = or_empty (param_name param),
              type = formatted_param_type param,
              description = clean_text (Some (or_empty (param_help param))),
              default = PNone,
              items = (if formatted_param_type param = ''array'' then Some ''string'' else None),
              choices = None \<rparr>;
          formatted_param =
            (if truthy (param_default param)
             then formatted_param
                    \<lparr> default := (case param_default param of
                                    PTuple xs \<Rightarrow> PList xs
                                  | d \<Rightarrow> d) \<rparr>
             else formatted_param);
          formatted_param =
            (case type_choices (param_type param) of
               Some cs \<Rightarrow>
                 if type_name (param_type param) = ''choice''
                 then formatted_param \<lparr> choices := Some cs \<rparr>
                 else formatted_param
             | None \<Rightarrow> formatted_param)
      in formatted_param)"

definition params_to_exclude :: "string list" where
  "params_to_exclude = [''config_env'', ''config_file'']"

text \<open>The condition of the list comprehension in \<^verbatim>\<open>get_params_from_command\<close>.\<close>

definition param_selected :: "Parameter \<Rightarrow> bool" where
  "param_selected param =
     (case param_name param of
        None \<Rightarrow> False
      | Some n \<Rightarrow> n \<noteq> [] \<and> is_Option param \<and> n \<notin> set params_to_exclude)"

definition get_params_from_command :: "Command \<Rightarrow> SamCliParameterSchema list" where
  "get_params_from_command cli = map format_param (filter param_selected (cmd_params cli))"

section \<open>Extracting commands and assembling the schema\<close>

text \<open>\<^verbatim>\<open>str(subcommand.name)\<close>\<close>

definition str_of_name :: "string option \<Rightarrow> string" where
  "str_of_name n = (case n of None \<Rightarrow> ''None'' | Some s \<Rightarrow> s)"

text \<open>\<^verbatim>\<open>module.__name__.split(".")[-1]\<close>; the split is never empty.\<close>

definition short_name :: "Module \<Rightarrow> string" where
  "short_name m = last (split CHR ''.'' (mod_name m))"

definition command_schema :: "string \<Rightarrow> Command \<Rightarrow> SamCliCommandSchema" where
  "command_schema key c =
     \<lparr> command_name = key,
       command_description =
         clean_text (Some (or_empty (or_else (cmd_help c) (cmd_short_help c)))),
       parameters = get_params_from_command c \<rparr>"

text \<open>
  \<^verbatim>\<open>retrieve_command_structure\<close>. \<open>to_key\<close> is \<^verbatim>\<open>SamConfig.to_key\<close> and \<open>import_module\<close>
  is \<^verbatim>\<open>importlib.import_module\<close> on the installed packages; both live outside this
  file and are parameters. An import that fails and a module without \<^verbatim>\<open>cli\<close> raise.
\<close>

definition retrieve_command_structure ::
  "(string list \<Rightarrow> string) \<Rightarrow> (string \<Rightarrow> Module option) \<Rightarrow> string
     \<Rightarrow> error + SamCliCommandSchema list" where
  "retrieve_command_structure to_key import_module package_name =
     (case import_module package_name of
        None \<Rightarrow> Inl ModuleNotFoundError
      | Some m \<Rightarrow>
          (case mod_cli m of
             None \<Rightarrow> Inl AttributeError
           | Some cli \<Rightarrow>
               (case cmd_commands cli of
                  Some subcommands \<Rightarrow>
                    Inr (map (\<lambda>subcommand.
                                command_schema
                                  (to_key [short_name m, str_of_name (cmd_name subcommand)])
                                  subcommand)
                             (map snd subcommands))
                | None \<Rightarrow> Inr [command_schema (to_key [short_name m]) cli])))"

text \<open>
  The first loop of \<^verbatim>\<open>generate_schema\<close>: \<^verbatim>\<open>commands.extend(...)\<close> for every package, in
  order, stopping at the first package that raises.
\<close>

fun extend_commands ::
  "(string list \<Rightarrow> string) \<Rightarrow> (string \<Rightarrow> Module option) \<Rightarrow> string list
     \<Rightarrow> SamCliCommandSchema list \<Rightarrow> error + SamCliCommandSchema list" where
  "extend_commands to_key import_module [] commands = Inr commands"
| "extend_commands to_key import_module (package_name # rest) commands =
     (case retrieve_command_structure to_key import_module package_name of
        Inl e \<Rightarrow> Inl e
      | Inr cs \<Rightarrow> extend_commands to_key import_module rest (commands @ cs))"

text \<open>
  The second loop: the \<open>properties\<close> dictionary of the environment wrapper after every
  command's fragment has been merged into it.
\<close>

definition environment_properties :: "SamCliCommandSchema list \<Rightarrow> (string \<times> pyval) list" where
  "environment_properties commands =
     fold (\<lambda>command acc. dict_update acc (command_to_schema command)) commands []"

definition SCHEMA_DRAFT :: string where
  "SCHEMA_DRAFT = ''http://json-schema.org/draft-04/schema''"

definition TITLE :: string where
  "TITLE = ''AWS SAM CLI samconfig schema''"

definition ENVIRONMENT_REGEX :: string where
  "ENVIRONMENT_REGEX = ''^.+$''"

text \<open>
  \<^verbatim>\<open>generate_schema\<close>, with the registry \<^verbatim>\<open>_SAM_CLI_COMMAND_PACKAGES\<close> as the parameter
  \<open>packages\<close>.
\<close>

definition generate_schema ::
  "(string list \<Rightarrow> string) \<Rightarrow> (string \<Rightarrow> Module option) \<Rightarrow> string list \<Rightarrow> error + pyval" where
  "generate_schema to_key import_module packages =
     (let schema = [];
          schema = AList.update ''$schema'' (PStr SCHEMA_DRAFT) schema;
          schema = AList.update ''title'' (PStr TITLE) schema;
          schema = AList.update ''type'' (PStr ''object'') schema;
          schema = AList.update ''properties''
                     (PDict [(''version'',
                        PDict [(''title'', PStr ''Config version''), (''type'', PStr ''number''),
                               (''default'', PFloat (1 / 10))])]) schema;
          schema = AList.update ''required'' (PList [PStr ''version'']) schema;
          schema = AList.update ''additionalProperties'' (PBool False) schema
      in case extend_commands to_key import_module packages [] of
           Inl e \<Rightarrow> Inl e
         | Inr commands \<Rightarrow>
             Inr (PDict (AList.update ''patternProperties''
                    (PDict [(ENVIRONMENT_REGEX,
                       PDict [(''title'', PStr ''Environment''),
                              (''properties'', PDict (environment_properties commands))])])
                    schema)))"

section \<open>A sample registry\<close>

text \<open>
  \<^verbatim>\<open>SamConfig.to_key\<close> is defined outside this file and is a parameter of the model.
  The sample inputs below use a key-joiner that joins the name segments with an
  underscore, and a registry of three packages: a leaf command \<open>foo\<close> with one option
  \<open>bar\<close>, a group \<open>grp\<close> with the subcommands \<open>a\<close> and \<open>b\<close>, and a second package
  whose short name is \<open>foo\<close> as well.
\<close>

definition sample_to_key :: "string list \<Rightarrow> string" where
  "sample_to_key cmd_names = join ''_'' cmd_names"

definition sample_bar :: Parameter where
  "sample_bar =
     \<lparr> param_name = Some ''bar'', is_Option = True,
       param_type = \<lparr> type_name = ''text'', type_choices = None \<rparr>,
       param_help = Some ''Bar option'', param_default = PStr ''baz'' \<rparr>"

definition sample_foo :: Command where
  "sample_foo = Command (Some ''foo'') (Some ''Foo command'') None [sample_bar] None"

definition sample_grp :: Command where
  "sample_grp =
     Command (Some ''grp'') (Some ''Group'') None []
       (Some [(''a'', Command (Some ''a'') (Some ''First'') None [] None),
              (''b'', Command (Some ''b'') None (Some ''Second'') [] None)])"

definition sample_other_foo :: Command where
  "sample_other_foo = Command (Some ''foo'') (Some ''Other foo command'') None [] None"

definition sample_import_module :: "string \<Rightarrow> Module option" where
  "sample_import_module package_name =
     (if package_name = ''samcli.commands.foo''
      then Some \<lparr> mod_name = ''samcli.commands.foo'', mod_cli = Some sample_foo \<rparr>
      else if package_name = ''samcli.commands.grp''
      then Some \<lparr> mod_name = ''samcli.commands.grp'', mod_cli = Some sample_grp \<rparr>
      else if package_name = ''samcli.commands.other.foo''
      then Some \<lparr> mod_name = ''samcli.commands.other.foo'', mod_cli = Some sample_other_foo \<rparr>
      else None)"

text \<open>
  A second sample value of the key-joiner parameter: every hyphen and every space of a
  segment is written as an underscore before the segments are joined with underscores.
  With it comes a registry of one leaf package whose short name has a hyphen.
\<close>

definition hyphen_to_key :: "string list \<Rightarrow> string" where
  "hyphen_to_key cmd_names =
     join ''_''
       (map (map (\<lambda>c. if c = CHR ''-'' \<or> c = CHR '' '' then CHR ''_'' else c)) cmd_names)"

definition hyphen_import_module :: "string \<Rightarrow> Module option" where
  "hyphen_import_module package_name =
     (if package_name = ''pkg.my-cmd''
      then Some \<lparr> mod_name = ''pkg.my-cmd'',
                  mod_cli = Some (Command (Some ''my-cmd'') (Some ''My command'') None [] None) \<rparr>
      else None)"

section \<open>Properties of the string operations\<close>

lemma dropWhile_self: "xs \<noteq> [] \<Longrightarrow> \<not> P (hd xs) \<Longrightarrow> dropWhile P xs = xs"
  by (cases xs) auto

lemma strip_fixed:
  "(s = [] \<or> (\<not> P (hd s) \<and> \<not> P (last s))) \<Longrightarrow> strip P s = s"
proof (cases s)
  case Nil
  then show ?thesis by (simp add: strip_def)
next
  case (Cons a as)
  assume "s = [] \<or> (\<not> P (hd s) \<and> \<not> P (last s))"
  with Cons have h: "\<not> P a" and l: "\<not> P (last s)" by auto
  from h Cons have 1: "dropWhile P s = s" by simp
  from Cons have "rev s \<noteq> []" by simp
  moreover from Cons have "hd (rev s) = last s" by (simp add: hd_rev)
  ultimately have "dropWhile P (rev s) = rev s" using l
    by (simp add: dropWhile_self)
  with 1 show ?thesis by (simp add: strip_def)
qed

lemma strip_ends:
  "strip P s = [] \<or> (\<not> P (hd (strip P s)) \<and> \<not> P (last (strip P s)))"
proof (cases "strip P s = []")
  case True
  then show ?thesis by simp
next
  case False
  let ?d = "dropWhile P s"
  let ?e = "dropWhile P (rev ?d)"
  from False have e: "?e \<noteq> []" by (simp add: strip_def)
  then have "rev ?d \<noteq> []" by (metis dropWhile.simps(1))
  then have d: "?d \<noteq> []" by simp
  have l: "\<not> P (hd ?e)" using e by (rule hd_dropWhile)
  have "last (strip P s) = hd ?e" using e by (simp add: strip_def last_rev)
  with l have L: "\<not> P (last (strip P s))" by simp
  have "\<not> P (hd ?d)" using d by (rule hd_dropWhile)
  moreover have "hd (strip P s) = hd ?d"
  proof -
    obtain pre where "rev ?d = pre @ ?e"
      by (metis takeWhile_dropWhile_id)
    then have "?d = rev ?e @ rev pre" by (metis rev_append rev_rev_ident)
    moreover have "rev ?e \<noteq> []" using e by simp
    ultimately have "hd ?d = hd (rev ?e)" by (metis hd_append2)
    then show ?thesis by (simp add: strip_def)
  qed
  ultimately show ?thesis using L by simp
qed

lemma strip_decompose:
  "\<exists>pre post. s = pre @ strip P s @ post \<and> (\<forall>c\<in>set pre. P c) \<and> (\<forall>c\<in>set post. P c)"
proof -
  let ?d = "dropWhile P s"
  have 1: "s = takeWhile P s @ ?d" by simp
  have 2: "rev ?d = takeWhile P (rev ?d) @ dropWhile P (rev ?d)" by simp
  have "?d = rev (dropWhile P (rev ?d)) @ rev (takeWhile P (rev ?d))"
    by (metis 2 rev_append rev_rev_ident)
  then have "s = takeWhile P s @ strip P s @ rev (takeWhile P (rev ?d))"
    using 1 by (simp add: strip_def)
  moreover have "\<forall>c\<in>set (takeWhile P s). P c" by (auto dest: set_takeWhileD)
  moreover have "\<forall>c\<in>set (rev (takeWhile P (rev ?d))). P c" by (auto dest: set_takeWhileD)
  ultimately show ?thesis by blast
qed

lemma set_strip: "set (strip P s) \<subseteq> set s"
  using strip_decompose [of s P] by (metis Un_upper1 Un_upper2 set_append subset_trans)

lemma is_space_newline: "is_space (CHR 0x0A)"
  by (simp add: is_space_def)

lemma clean_text_pipeline:
  "clean_text (Some s) = strip is_space (strip (\<lambda>c. c = CHR 0x0A) (remove_char (CHR 0x08) s))"
  by (simp add: clean_text_def strip_def remove_char_def)

lemma clean_text_no_backspace: "CHR 0x08 \<notin> set (clean_text t)"
proof (cases t)
  case None
  then show ?thesis by (simp add: clean_text_def)
next
  case (Some s)
  have "set (clean_text (Some s)) \<subseteq> set (remove_char (CHR 0x08) s)"
    unfolding clean_text_pipeline using set_strip by (meson subset_trans)
  then show ?thesis using Some by (auto simp: remove_char_def)
qed

lemma clean_text_ends:
  "clean_text t = [] \<or> (\<not> is_space (hd (clean_text t)) \<and> \<not> is_space (last (clean_text t)))"
proof (cases t)
  case None
  then show ?thesis by (simp add: clean_text_def)
next
  case (Some s)
  show ?thesis unfolding Some clean_text_pipeline by (rule strip_ends)
qed

lemma clean_text_idem: "clean_text (Some (clean_text t)) = clean_text t"
proof -
  let ?r = "clean_text t"
  have a: "remove_char (CHR 0x08) ?r = ?r"
    using clean_text_no_backspace [of t] by (auto simp: remove_char_def filter_id_conv)
  have e: "?r = [] \<or> (\<not> is_space (hd ?r) \<and> \<not> is_space (last ?r))"
    by (rule clean_text_ends)
  then have "?r = [] \<or> (hd ?r \<noteq> CHR 0x0A \<and> last ?r \<noteq> CHR 0x0A)"
    using is_space_newline by metis
  then have b: "strip (\<lambda>c. c = CHR 0x0A) ?r = ?r" by (intro strip_fixed) simp
  have c: "strip is_space ?r = ?r" using e by (rule strip_fixed)
  show ?thesis unfolding clean_text_pipeline by (simp add: a b c)
qed

lemma strip_decompose_weaken:
  assumes "\<And>c. P c \<Longrightarrow> Q c"
  obtains pre post where "s = pre @ strip P s @ post"
    and "\<forall>c\<in>set pre. Q c" and "\<forall>c\<in>set post. Q c"
proof -
  obtain pre post where 1: "s = pre @ strip P s @ post"
    and 2: "\<forall>c\<in>set pre. P c" and 3: "\<forall>c\<in>set post. P c"
    using strip_decompose [of s P] by blast
  from 2 assms have "\<forall>c\<in>set pre. Q c" by blast
  moreover from 3 assms have "\<forall>c\<in>set post. Q c" by blast
  ultimately show ?thesis using 1 that by blast
qed

lemma newline_is_space: "c = CHR 0x0A \<Longrightarrow> is_space c"
  by (simp add: is_space_def)

lemma clean_text_decompose:
  "\<exists>pre post. remove_char (CHR 0x08) s = pre @ clean_text (Some s) @ post
     \<and> (\<forall>c\<in>set pre. is_space c) \<and> (\<forall>c\<in>set post. is_space c)"
proof -
  let ?r = "remove_char (CHR 0x08) s"
  let ?n = "strip (\<lambda>c. c = CHR 0x0A) ?r"
  obtain pre1 post1 where 1: "?r = pre1 @ ?n @ post1"
    and p1: "\<forall>c\<in>set pre1. is_space c" and q1: "\<forall>c\<in>set post1. is_space c"
    by (rule strip_decompose_weaken [of "\<lambda>c. c = CHR 0x0A" is_space ?r, OF newline_is_space])
  obtain pre2 post2 where 2: "?n = pre2 @ strip is_space ?n @ post2"
    and p2: "\<forall>c\<in>set pre2. is_space c" and q2: "\<forall>c\<in>set post2. is_space c"
    by (rule strip_decompose_weaken [of is_space is_space ?n])
  have "?r = pre1 @ (pre2 @ strip is_space ?n @ post2) @ post1"
    using 1 2 by simp
  then have "?r = (pre1 @ pre2) @ clean_text (Some s) @ (post2 @ post1)"
    unfolding clean_text_pipeline by simp
  moreover have "\<forall>c\<in>set (pre1 @ pre2). is_space c"
    using p1 p2 by (simp add: ball_Un)
  moreover have "\<forall>c\<in>set (post2 @ post1). is_space c"
    using q1 q2 by (simp add: ball_Un)
  ultimately show ?thesis by (intro exI conjI)
qed

section \<open>Properties of the dictionaries and of the parameter record\<close>

lemma dict_update_single: "dict_update d [(k, v)] = AList.update k v d"
  by (simp add: dict_update_def)

lemma format_param_name: "name (format_param param) = or_empty (param_name param)"
  by (simp add: format_param_def Let_def split: option.splits)

lemma format_param_type_field: "type (format_param param) = formatted_param_type param"
  by (simp add: format_param_def Let_def split: option.splits)

lemma format_param_items:
  "items (format_param param)
     = (if formatted_param_type param = ''array'' then Some ''string'' else None)"
  by (simp add: format_param_def Let_def split: option.splits)

lemma format_param_default:
  "default (format_param param)
     = (if truthy (param_default param)
        then (case param_default param of PTuple xs \<Rightarrow> PList xs | d \<Rightarrow> d) else PNone)"
  by (simp add: format_param_def Let_def split: option.splits)

lemma format_param_choices:
  "choices (format_param param)
     = (case type_choices (param_type param) of
          None \<Rightarrow> None
        | Some cs \<Rightarrow> if type_name (param_type param) = ''choice'' then Some cs else None)"
  by (simp add: format_param_def Let_def split: option.splits)

lemma truthy_tuple_to_list:
  "truthy (case d of PTuple xs \<Rightarrow> PList xs | d \<Rightarrow> d) = truthy d"
  by (cases d) simp_all

lemma param_to_schema_default:
  "map_of (param_to_schema p) ''default'' = (if truthy (default p) then Some (default p) else None)"
  by (simp add: param_to_schema_def Let_def dict_update_def update_conv' split: option.splits)

lemma param_to_schema_items:
  "map_of (param_to_schema p) ''items''
     = (case items p of
          None \<Rightarrow> None
        | Some i \<Rightarrow> if i \<noteq> [] then Some (PDict [(''type'', PStr i)]) else None)"
  by (simp add: param_to_schema_def Let_def dict_update_def update_conv' split: option.splits)

lemma param_to_schema_enum:
  "map_of (param_to_schema p) ''enum''
     = (case choices p of
          None \<Rightarrow> None
        | Some cs \<Rightarrow> if cs \<noteq> [] then Some (PList (map PStr cs)) else None)"
  by (simp add: param_to_schema_def Let_def dict_update_def update_conv' split: option.splits)

lemma find_append_case:
  "find P (xs @ ys) = (case find P xs of None \<Rightarrow> find P ys | Some x \<Rightarrow> Some x)"
  by (induction xs) auto

lemma update_fresh_key: "k \<notin> fst ` set al \<Longrightarrow> AList.update k v al = al @ [(k, v)]"
  by (induction al) auto

lemma fold_update_keys:
  "fst ` set (fold (\<lambda>x acc. AList.update (f x) (g x) acc) xs al) = f ` set xs \<union> fst ` set al"
  by (induction xs arbitrary: al) (auto simp: dom_update)

lemma fold_update_distinct:
  "distinct (map fst al)
     \<Longrightarrow> distinct (map fst (fold (\<lambda>x acc. AList.update (f x) (g x) acc) xs al))"
  by (induction xs arbitrary: al) (simp_all add: distinct_update)

lemma fold_update_map_of:
  "map_of (fold (\<lambda>x acc. AList.update (f x) (g x) acc) xs al) k
     = (case find (\<lambda>x. f x = k) (rev xs) of None \<Rightarrow> map_of al k | Some x \<Rightarrow> Some (g x))"
proof (induction xs arbitrary: al)
  case Nil
  then show ?case by simp
next
  case (Cons x xs)
  show ?case
    by (simp add: Cons.IH find_append_case update_conv' split: option.splits)
qed

lemma fold_update_fresh:
  "distinct (map f xs) \<Longrightarrow> f ` set xs \<inter> fst ` set al = {}
     \<Longrightarrow> fold (\<lambda>x acc. AList.update (f x) (g x) acc) xs al = al @ map (\<lambda>x. (f x, g x)) xs"
proof (induction xs arbitrary: al)
  case Nil
  then show ?case by simp
next
  case (Cons x xs)
  from Cons.prems have fresh: "f x \<notin> fst ` set al" by auto
  have "f ` set xs \<inter> fst ` set (al @ [(f x, g x)]) = {}"
    using Cons.prems by auto
  with Cons.prems have
    "fold (\<lambda>x acc. AList.update (f x) (g x) acc) xs (al @ [(f x, g x)])
       = (al @ [(f x, g x)]) @ map (\<lambda>x. (f x, g x)) xs"
    by (intro Cons.IH) simp_all
  then show ?case by (simp add: update_fresh_key [OF fresh])
qed

lemma find_rev_last:
  assumes "j < length xs" and "P (xs ! j)"
    and "\<forall>k. j < k \<and> k < length xs \<longrightarrow> \<not> P (xs ! k)"
  shows "find P (rev xs) = Some (xs ! j)"
proof -
  have xs: "xs = take j xs @ xs ! j # drop (Suc j) xs"
    using assms(1) by (rule id_take_nth_drop)
  have "\<not> P y" if "y \<in> set (drop (Suc j) xs)" for y
  proof -
    from that obtain i where "i < length (drop (Suc j) xs)" and "y = drop (Suc j) xs ! i"
      by (auto simp: in_set_conv_nth)
    then have "y = xs ! (Suc j + i)" and "Suc j + i < length xs" by auto
    with assms(3) show ?thesis by auto
  qed
  then have none: "find P (rev (drop (Suc j) xs)) = None"
    by (simp add: find_None_iff)
  have "rev xs = rev (drop (Suc j) xs) @ xs ! j # rev (take j xs)"
    by (subst xs) simp
  then show ?thesis using none assms(2) by (simp add: find_append_case)
qed

lemma params_properties_keys: "fst ` set (params_properties ps) = name ` set ps"
  by (simp add: params_properties_def fold_update_keys)

lemma params_properties_distinct: "distinct (map fst (params_properties ps))"
  by (simp add: params_properties_def fold_update_distinct)

lemma params_properties_map_of:
  "map_of (params_properties ps) k
     = map_option (\<lambda>p. PDict (param_to_schema p)) (find (\<lambda>p. name p = k) (rev ps))"
  by (simp add: params_properties_def fold_update_map_of split: option.splits)

lemma params_properties_distinct_names:
  "distinct (map name ps)
     \<Longrightarrow> params_properties ps = map (\<lambda>p. (name p, PDict (param_to_schema p))) ps"
  by (simp add: params_properties_def fold_update_fresh)

lemma environment_properties_fold:
  "environment_properties commands
     = fold (\<lambda>c acc. AList.update (command_name c) (command_fragment c) acc) commands []"
  by (simp add: environment_properties_def command_to_schema_def dict_update_def)

lemma environment_properties_map_of:
  "map_of (environment_properties commands) n
     = map_option command_fragment (find (\<lambda>c. command_name c = n) (rev commands))"
  by (simp add: environment_properties_fold fold_update_map_of split: option.splits)

lemma extend_commands_Inr_iff:
  "(\<exists>out. extend_commands to_key import_module packages acc = Inr out)
     \<longleftrightarrow> (\<forall>p\<in>set packages. \<exists>cs. retrieve_command_structure to_key import_module p = Inr cs)"
  by (induction packages arbitrary: acc) (auto split: sum.splits)

lemma generate_schema_Inr_iff:
  "(\<exists>doc. generate_schema to_key import_module packages = Inr doc)
     \<longleftrightarrow> (\<exists>out. extend_commands to_key import_module packages [] = Inr out)"
  by (auto simp: generate_schema_def Let_def split: sum.splits)

lemma dict_path_append:
  "dict_path v (ks @ ks')
     = (case dict_path v ks of None \<Rightarrow> None | Some w \<Rightarrow> dict_path w ks')"
  by (induction ks arbitrary: v) (auto split: option.splits)

lemma format_param_description:
  "description (format_param param) = clean_text (Some (or_empty (param_help param)))"
  by (simp add: format_param_def Let_def split: option.splits)

lemma params_properties_length:
  "length (params_properties ps) = card (name ` set ps)"
proof -
  have "length (map fst (params_properties ps)) = card (set (map fst (params_properties ps)))"
    using params_properties_distinct [of ps] by (simp only: distinct_card)
  then show ?thesis by (simp add: params_properties_keys)
qed

section \<open>Text cleaning\<close>

text \<open>
  C9. \<^verbatim>\<open>clean_text\<close> is idempotent: cleaning a cleaned string returns it unchanged. Applied
  to \<open>None\<close> or to the empty string it returns the empty string.
\<close>

theorem clean_text_idempotent:
  "clean_text (Some (clean_text (Some s))) = clean_text (Some s)
   \<and> clean_text None = [] \<and> clean_text (Some []) = []"
  using clean_text_idem [of "Some s"] by (simp add: clean_text_def)

text \<open>
  C10, as the code has it. The description of a normalised parameter is the help text,
  or the empty string when there is none, after three steps: every backspace character
  U+0008 (\<^verbatim>\<open>"\b"\<close>) is removed, line feeds are stripped from both ends, then whitespace
  is stripped from both ends. No other control character is removed as such: the
  description is the backspace-free help text without a whitespace-only prefix and a
  whitespace-only suffix. It holds no backspace, neither starts nor ends with a
  whitespace character, and is empty for an absent or empty help text.
\<close>

theorem format_param_description_steps:
  "description (format_param param)
     = strip is_space
         (strip (\<lambda>c. c = CHR 0x0A) (remove_char (CHR 0x08) (or_empty (param_help param))))
   \<and> (param_help param = None \<or> param_help param = Some []
        \<longrightarrow> description (format_param param) = [])
   \<and> clean_text None = [] \<and> clean_text (Some []) = []
   \<and> CHR 0x08 \<notin> set (description (format_param param))
   \<and> (description (format_param param) = []
        \<or> (\<not> is_space (hd (description (format_param param)))
            \<and> \<not> is_space (last (description (format_param param)))))
   \<and> (\<exists>pre post.
          filter (\<lambda>c. c \<noteq> CHR 0x08) (or_empty (param_help param))
            = pre @ description (format_param param) @ post
          \<and> (\<forall>c\<in>set pre. is_space c) \<and> (\<forall>c\<in>set post. is_space c))"
proof -
  let ?s = "or_empty (param_help param)"
  have d: "description (format_param param) = clean_text (Some ?s)"
    by (rule format_param_description)
  have 1: "description (format_param param)
      = strip is_space (strip (\<lambda>c. c = CHR 0x0A) (remove_char (CHR 0x08) ?s))"
    unfolding d by (rule clean_text_pipeline)
  have 2: "param_help param = None \<or> param_help param = Some []
      \<longrightarrow> description (format_param param) = []"
    unfolding d by (auto simp: or_empty_def clean_text_def)
  have 3: "clean_text None = []" and 4: "clean_text (Some []) = []"
    by (simp_all add: clean_text_def)
  have 5: "CHR 0x08 \<notin> set (description (format_param param))"
    unfolding d by (rule clean_text_no_backspace)
  have 6: "description (format_param param) = []
      \<or> (\<not> is_space (hd (description (format_param param)))
          \<and> \<not> is_space (last (description (format_param param))))"
    unfolding d by (rule clean_text_ends)
  have 7: "\<exists>pre post.
      filter (\<lambda>c. c \<noteq> CHR 0x08) ?s = pre @ description (format_param param) @ post
      \<and> (\<forall>c\<in>set pre. is_space c) \<and> (\<forall>c\<in>set post. is_space c)"
    unfolding d using clean_text_decompose [of ?s] by (simp only: remove_char_def)
  show ?thesis
    by (intro conjI) (rule 1, rule 2, rule 3, rule 4, rule 5, rule 6, rule 7)
qed

theorem format_param_description_steps_witness:
  "description (format_param
      \<lparr> param_name = Some ''bar'', is_Option = True,
        param_type = \<lparr> type_name = ''text'', type_choices = None \<rparr>,
        param_help = Some [CHR 0x08, CHR 0x0A, CHR '' '', CHR ''a'', CHR 0x08, CHR 0x09,
                           CHR ''b'', CHR 0x0A, CHR 0xA0, CHR 0x0A],
        param_default = PNone \<rparr>)
     = [CHR ''a'', CHR 0x09, CHR ''b'']
   \<and> description (format_param
      \<lparr> param_name = Some ''bar'', is_Option = True,
        param_type = \<lparr> type_name = ''text'', type_choices = None \<rparr>,
        param_help = None, param_default = PNone \<rparr>)
     = []"
proof -
  let ?p = "\<lparr> param_name = Some ''bar'', is_Option = True,
        param_type = \<lparr> type_name = ''text'', type_choices = None \<rparr>,
        param_help = Some [CHR 0x08, CHR 0x0A, CHR '' '', CHR ''a'', CHR 0x08, CHR 0x09,
                           CHR ''b'', CHR 0x0A, CHR 0xA0, CHR 0x0A],
        param_default = PNone \<rparr>"
  let ?q = "\<lparr> param_name = Some ''bar'', is_Option = True,
        param_type = \<lparr> type_name = ''text'', type_choices = None \<rparr>,
        param_help = None, param_default = PNone \<rparr>"
  have "description (format_param ?p) = [CHR ''a'', CHR 0x09, CHR ''b'']"
    using format_param_description_steps [of ?p, THEN conjunct1]
    by (simp add: or_empty_def strip_def remove_char_def is_space_def)
  moreover have "description (format_param ?q) = []"
    using format_param_description_steps [of ?q, THEN conjunct2, THEN conjunct1]
    by simp
  ultimately show ?thesis by (rule conjI)
qed

text \<open>
  C10 as stated, with control characters stripped, fails: the bell U+0007 inside a help
  text stays in the description.
\<close>

theorem format_param_description_keeps_bell:
  "description (format_param
      \<lparr> param_name = Some ''bar'', is_Option = True,
        param_type = \<lparr> type_name = ''text'', type_choices = None \<rparr>,
        param_help = Some [CHR ''a'', CHR 0x07, CHR ''b''], param_default = PNone \<rparr>)
     = [CHR ''a'', CHR 0x07, CHR ''b'']"
  by (simp add: format_param_description or_empty_def clean_text_def strip_def
      remove_char_def is_space_def)

section \<open>The parameter normaliser\<close>

text \<open>
  C2, as the code has it. The declared type name is put in lower case first. When the
  lower-cased name is one of \<open>text\<close>, \<open>path\<close>, \<open>choice\<close>, \<open>filename\<close>, \<open>directory\<close> the
  normalised type is \<open>string\<close>; when it is \<open>list\<close> the type is \<open>array\<close> and \<open>items\<close> is
  \<open>string\<close>; any other name gives the lower-cased name, and \<open>string\<close> when the name is
  empty. The name is a string by its type, so an absent name is not an input.
\<close>

theorem format_param_type_mapping:
  "(lower (type_name (param_type param))
        \<in> set [''text'', ''path'', ''choice'', ''filename'', ''directory'']
      \<longrightarrow> type (format_param param) = ''string'' \<and> items (format_param param) = None)
   \<and> (lower (type_name (param_type param)) = ''list''
      \<longrightarrow> type (format_param param) = ''array''
          \<and> items (format_param param) = Some ''string'')
   \<and> (lower (type_name (param_type param))
        \<notin> set [''text'', ''path'', ''choice'', ''filename'', ''directory'', ''list'']
      \<longrightarrow> type (format_param param)
            = (if type_name (param_type param) = [] then ''string''
               else lower (type_name (param_type param))))"
  by (simp add: format_param_type_field format_param_items formatted_param_type_def Let_def
      lower_def)

theorem format_param_type_mapping_witness:
  "type (format_param \<lparr> param_name = Some ''template_file'', is_Option = True,
       param_type = \<lparr> type_name = ''Path'', type_choices = None \<rparr>,
       param_help = None, param_default = PNone \<rparr>) = ''string''
   \<and> items (format_param \<lparr> param_name = Some ''capabilities'', is_Option = True,
       param_type = \<lparr> type_name = ''list'', type_choices = None \<rparr>,
       param_help = None, param_default = PNone \<rparr>) = Some ''string''
   \<and> type (format_param \<lparr> param_name = Some ''port'', is_Option = True,
       param_type = \<lparr> type_name = ''integer'', type_choices = None \<rparr>,
       param_help = None, param_default = PNone \<rparr>) = ''integer''"
  using
    format_param_type_mapping [of "\<lparr> param_name = Some ''template_file'', is_Option = True,
       param_type = \<lparr> type_name = ''Path'', type_choices = None \<rparr>,
       param_help = None, param_default = PNone \<rparr>"]
    format_param_type_mapping [of "\<lparr> param_name = Some ''capabilities'', is_Option = True,
       param_type = \<lparr> type_name = ''list'', type_choices = None \<rparr>,
       param_help = None, param_default = PNone \<rparr>"]
    format_param_type_mapping [of "\<lparr> param_name = Some ''port'', is_Option = True,
       param_type = \<lparr> type_name = ''integer'', type_choices = None \<rparr>,
       param_help = None, param_default = PNone \<rparr>"]
  by (simp add: lower_def lower_char_def uppercase_letters_def lowercase_letters_def)

text \<open>
  C2 as stated, with the other names kept verbatim, fails: the declared name \<open>JSON\<close> is
  outside the table, and the normalised type is \<open>json\<close>, not the name as declared.
\<close>

theorem format_param_type_not_verbatim:
  "lower ''JSON'' \<notin> set [''text'', ''path'', ''choice'', ''filename'', ''directory'', ''list'']
   \<and> type (format_param \<lparr> param_name = Some ''overrides'', is_Option = True,
         param_type = \<lparr> type_name = ''JSON'', type_choices = None \<rparr>,
         param_help = None, param_default = PNone \<rparr>) = ''json''
   \<and> type (format_param \<lparr> param_name = Some ''overrides'', is_Option = True,
         param_type = \<lparr> type_name = ''JSON'', type_choices = None \<rparr>,
         param_help = None, param_default = PNone \<rparr>) \<noteq> ''JSON''"
  by (simp add: format_param_def formatted_param_type_def Let_def lower_def lower_char_def
      uppercase_letters_def lowercase_letters_def)

text \<open>
  C4. A falsy default (\<open>None\<close>, the empty string, \<open>0\<close>, \<open>False\<close>, an empty sequence) leaves
  the record's default at \<open>None\<close> and the emitted fragment without a \<open>default\<close> key. A
  truthy default is kept, a tuple being turned into the list of its elements, and is
  emitted under \<open>default\<close>.
\<close>

theorem format_param_default_key:
  "(\<not> truthy (param_default param)
      \<longrightarrow> map_of (param_to_schema (format_param param)) ''default'' = None
          \<and> default (format_param param) = PNone)
   \<and> (truthy (param_default param)
      \<longrightarrow> map_of (param_to_schema (format_param param)) ''default''
            = Some (case param_default param of PTuple xs \<Rightarrow> PList xs | d \<Rightarrow> d)
          \<and> default (format_param param)
            = (case param_default param of PTuple xs \<Rightarrow> PList xs | d \<Rightarrow> d))"
  by (simp add: param_to_schema_default format_param_default truthy_tuple_to_list)

theorem format_param_default_key_witness:
  "map_of (param_to_schema (format_param \<lparr> param_name = Some ''port'', is_Option = True,
       param_type = \<lparr> type_name = ''integer'', type_choices = None \<rparr>,
       param_help = None, param_default = PInt 0 \<rparr>)) ''default'' = None
   \<and> map_of (param_to_schema (format_param \<lparr> param_name = Some ''capabilities'',
       is_Option = True, param_type = \<lparr> type_name = ''list'', type_choices = None \<rparr>,
       param_help = None, param_default = PTuple [PStr ''CAPABILITY_IAM''] \<rparr>)) ''default''
     = Some (PList [PStr ''CAPABILITY_IAM''])"
  using
    format_param_default_key [of "\<lparr> param_name = Some ''port'', is_Option = True,
       param_type = \<lparr> type_name = ''integer'', type_choices = None \<rparr>,
       param_help = None, param_default = PInt 0 \<rparr>"]
    format_param_default_key [of "\<lparr> param_name = Some ''capabilities'',
       is_Option = True, param_type = \<lparr> type_name = ''list'', type_choices = None \<rparr>,
       param_help = None, param_default = PTuple [PStr ''CAPABILITY_IAM''] \<rparr>"]
  by simp

text \<open>
  C8, as the code has it. \<open>items\<close> is present only if the resolved type is \<open>array\<close>, and
  so is the \<open>items\<close> key of the fragment. \<open>choices\<close> is present only if the declared type
  name is exactly \<open>choice\<close> and the type is a \<^verbatim>\<open>click.Choice\<close>, and it is then the list
  of that type's choices, which are strings and may be none at all. The fragment has an
  \<open>enum\<close> key only for a non-empty list of choices.
\<close>

theorem format_param_items_choices:
  "(items (format_param param) \<noteq> None
      \<longrightarrow> type (format_param param) = ''array'' \<and> items (format_param param) = Some ''string'')
   \<and> (map_of (param_to_schema (format_param param)) ''items'' \<noteq> None
      \<longrightarrow> type (format_param param) = ''array'')
   \<and> (choices (format_param param) = Some cs
      \<longrightarrow> type_name (param_type param) = ''choice''
          \<and> type_choices (param_type param) = Some cs)
   \<and> (map_of (param_to_schema (format_param param)) ''enum'' = Some e
      \<longrightarrow> (\<exists>cs. cs \<noteq> [] \<and> choices (format_param param) = Some cs
                \<and> e = PList (map PStr cs)))"
  by (auto simp: format_param_items format_param_type_field format_param_choices
      param_to_schema_items param_to_schema_enum split: option.splits if_splits)

theorem format_param_items_choices_witness:
  "type (format_param \<lparr> param_name = Some ''capabilities'', is_Option = True,
       param_type = \<lparr> type_name = ''list'', type_choices = None \<rparr>,
       param_help = None, param_default = PNone \<rparr>) = ''array''
   \<and> map_of (param_to_schema (format_param \<lparr> param_name = Some ''output'', is_Option = True,
       param_type = \<lparr> type_name = ''choice'', type_choices = Some [''json'', ''table''] \<rparr>,
       param_help = None, param_default = PNone \<rparr>)) ''enum''
     = Some (PList [PStr ''json'', PStr ''table''])
   \<and> (\<exists>cs. cs \<noteq> [] \<and> choices (format_param \<lparr> param_name = Some ''output'', is_Option = True,
       param_type = \<lparr> type_name = ''choice'', type_choices = Some [''json'', ''table''] \<rparr>,
       param_help = None, param_default = PNone \<rparr>) = Some cs)"
  using
    format_param_items_choices [of "\<lparr> param_name = Some ''capabilities'', is_Option = True,
       param_type = \<lparr> type_name = ''list'', type_choices = None \<rparr>,
       param_help = None, param_default = PNone \<rparr>"]
    format_param_items_choices [of "\<lparr> param_name = Some ''output'', is_Option = True,
       param_type = \<lparr> type_name = ''choice'', type_choices = Some [''json'', ''table''] \<rparr>,
       param_help = None, param_default = PNone \<rparr>" _ "PList [PStr ''json'', PStr ''table'']"]
  by (simp add: format_param_items format_param_choices param_to_schema_enum
      formatted_param_type_def lower_def lower_char_def uppercase_letters_def lowercase_letters_def)

text \<open>
  C8 as stated, with \<open>choices\<close> non-empty whenever present, fails: a \<^verbatim>\<open>click.Choice\<close>
  built with no choices gives a record whose \<open>choices\<close> field is present and empty.
\<close>

theorem format_param_choices_empty:
  "choices (format_param \<lparr> param_name = Some ''output'', is_Option = True,
       param_type = \<lparr> type_name = ''choice'', type_choices = Some [] \<rparr>,
       param_help = None, param_default = PNone \<rparr>) = Some []"
  by (simp add: format_param_def Let_def)

section \<open>Parameter extraction\<close>

text \<open>
  C6. The names \<open>config_env\<close> and \<open>config_file\<close> never occur among the parameters
  extracted from a command. Every extracted parameter is the normal form of a declared
  parameter that is an option and has a non-empty name, and every declared option with
  a non-empty name other than the two reserved ones is extracted.
\<close>

theorem get_params_from_command_reserved:
  "''config_env'' \<notin> name ` set (get_params_from_command cli)
   \<and> ''config_file'' \<notin> name ` set (get_params_from_command cli)
   \<and> (\<forall>q\<in>set (get_params_from_command cli).
         \<exists>p\<in>set (cmd_params cli).
           q = format_param p \<and> is_Option p \<and> param_name p = Some (name q) \<and> name q \<noteq> [])
   \<and> (\<forall>p\<in>set (cmd_params cli). \<forall>n.
         param_name p = Some n \<and> n \<noteq> [] \<and> is_Option p
           \<and> n \<noteq> ''config_env'' \<and> n \<noteq> ''config_file''
         \<longrightarrow> format_param p \<in> set (get_params_from_command cli))"
  by (auto simp: get_params_from_command_def param_selected_def params_to_exclude_def
      format_param_name or_empty_def split: option.splits)

theorem get_params_from_command_reserved_witness:
  "map name (get_params_from_command
      (Command (Some ''deploy'') None None
         [sample_bar,
          sample_bar \<lparr> param_name := Some ''config_env'' \<rparr>,
          sample_bar \<lparr> param_name := Some ''config_file'' \<rparr>,
          sample_bar \<lparr> param_name := None \<rparr>,
          sample_bar \<lparr> param_name := Some ''template'', is_Option := False \<rparr>] None))
     = [''bar'']
   \<and> ''config_env'' \<notin> name ` set (get_params_from_command
      (Command (Some ''deploy'') None None
         [sample_bar,
          sample_bar \<lparr> param_name := Some ''config_env'' \<rparr>,
          sample_bar \<lparr> param_name := Some ''config_file'' \<rparr>,
          sample_bar \<lparr> param_name := None \<rparr>,
          sample_bar \<lparr> param_name := Some ''template'', is_Option := False \<rparr>] None))"
  using get_params_from_command_reserved [of
      "Command (Some ''deploy'') None None
         [sample_bar,
          sample_bar \<lparr> param_name := Some ''config_env'' \<rparr>,
          sample_bar \<lparr> param_name := Some ''config_file'' \<rparr>,
          sample_bar \<lparr> param_name := None \<rparr>,
          sample_bar \<lparr> param_name := Some ''template'', is_Option := False \<rparr>] None"]
  by (simp add: get_params_from_command_def param_selected_def params_to_exclude_def
      sample_bar_def format_param_name or_empty_def)

section \<open>Command extraction\<close>

text \<open>
  C3, as the code has it. For a package that imports as a module with a \<open>cli\<close> command:
  when the command is not a group, \<^verbatim>\<open>retrieve_command_structure\<close> returns exactly one
  command record, named by the key-joiner applied to the package's short name alone
  (the last dotted segment of the module name); when it is a group, it returns one
  record per subcommand, in the order of the group's dictionary, each named by the
  key-joiner applied to the short name and the subcommand's name.
\<close>

theorem retrieve_command_structure_names:
  assumes "import_module package_name = Some m" and "mod_cli m = Some cli"
  shows "(cmd_commands cli = None
            \<longrightarrow> (\<exists>c. retrieve_command_structure to_key import_module package_name = Inr [c]
                     \<and> command_name c = to_key [last (split CHR ''.'' (mod_name m))]))
         \<and> (\<forall>subcommands. cmd_commands cli = Some subcommands
            \<longrightarrow> (\<exists>cs. retrieve_command_structure to_key import_module package_name = Inr cs
                     \<and> length cs = length subcommands
                     \<and> map command_name cs
                         = map (\<lambda>(key, subcommand).
                                  to_key [last (split CHR ''.'' (mod_name m)),
                                          str_of_name (cmd_name subcommand)])
                               subcommands))"
  using assms
  by (simp add: retrieve_command_structure_def command_schema_def short_name_def
      case_prod_unfold comp_def)

theorem retrieve_command_structure_names_witness:
  "(\<exists>c. retrieve_command_structure sample_to_key sample_import_module ''samcli.commands.foo''
          = Inr [c] \<and> command_name c = ''foo'')
   \<and> (\<exists>cs. retrieve_command_structure sample_to_key sample_import_module ''samcli.commands.grp''
          = Inr cs \<and> length cs = 2 \<and> map command_name cs = [''grp_a'', ''grp_b''])"
  using
    retrieve_command_structure_names [where import_module = sample_import_module
      and package_name = "''samcli.commands.foo''"
      and m = "\<lparr> mod_name = ''samcli.commands.foo'', mod_cli = Some sample_foo \<rparr>"
      and cli = sample_foo and to_key = sample_to_key]
    retrieve_command_structure_names [where import_module = sample_import_module
      and package_name = "''samcli.commands.grp''"
      and m = "\<lparr> mod_name = ''samcli.commands.grp'', mod_cli = Some sample_grp \<rparr>"
      and cli = sample_grp and to_key = sample_to_key]
  by (simp add: sample_import_module_def sample_foo_def sample_grp_def sample_to_key_def
      str_of_name_def numeral_2_eq_2)

text \<open>
  C3 as stated, with a leaf named by the short name itself, fails: under a key-joiner
  that writes hyphens as underscores, the leaf package \<open>pkg.my-cmd\<close>, whose short name
  is \<open>my-cmd\<close>, yields the one command \<open>my_cmd\<close>.
\<close>

theorem retrieve_command_structure_leaf_name:
  "retrieve_command_structure hyphen_to_key hyphen_import_module ''pkg.my-cmd''
     = Inr [\<lparr> command_name = ''my_cmd'', command_description = ''My command'',
              parameters = [] \<rparr>]
   \<and> last (split CHR ''.'' ''pkg.my-cmd'') = ''my-cmd''"
  by (simp add: retrieve_command_structure_def hyphen_import_module_def hyphen_to_key_def
      short_name_def command_schema_def get_params_from_command_def or_else_def or_empty_def
      clean_text_def strip_def remove_char_def is_space_def)

section \<open>The schema fragment of a command\<close>

text \<open>
  C5, as the code has it. Let the first segment of the command's name, split at the
  underscore, be in the fixed exclusion list. Then the fragment's
  \<open>properties.parameters.properties\<close> is the empty object and the parameters description
  is the header line alone, with no bullet list, whatever parameters the command has.
  For a command outside the list the mapping has one entry per distinct parameter name:
  its keys are exactly the names of the parameters, each key occurs once, there are as
  many entries as distinct names, and a key holds the fragment of the last parameter of
  that name. Parameters of distinct names give one entry each, in declaration order.
  The description then carries the bullet list, one bullet per parameter.
\<close>

theorem command_to_schema_exclusion:
  assumes "split CHR ''_'' (command_name c) = seg # rest"
  shows "command_to_schema c = [(command_name c, command_fragment c)]
      \<and> (seg \<in> set COMMANDS_TO_EXCLUDE
          \<longrightarrow> dict_path (command_fragment c) [''properties'', ''parameters'', ''properties'']
                = Some (PDict [])
              \<and> dict_path (command_fragment c) [''properties'', ''parameters'', ''description'']
                = Some (PStr (''Available parameters for the '' @ join '' '' (seg # rest)
                                @ '' command:'' @ [CHR 0x0A])))
      \<and> (seg \<notin> set COMMANDS_TO_EXCLUDE
          \<longrightarrow> dict_path (command_fragment c) [''properties'', ''parameters'', ''properties'']
                = Some (PDict (params_properties (parameters c)))
              \<and> fst ` set (params_properties (parameters c)) = name ` set (parameters c)
              \<and> distinct (map fst (params_properties (parameters c)))
              \<and> length (params_properties (parameters c)) = card (name ` set (parameters c))
              \<and> (\<forall>k. map_of (params_properties (parameters c)) k
                     = map_option (\<lambda>p. PDict (param_to_schema p))
                         (find (\<lambda>p. name p = k) (rev (parameters c))))
              \<and> (distinct (map name (parameters c))
                   \<longrightarrow> params_properties (parameters c)
                     = map (\<lambda>p. (name p, PDict (param_to_schema p))) (parameters c))
              \<and> dict_path (command_fragment c) [''properties'', ''parameters'', ''description'']
                = Some (PStr (''Available parameters for the '' @ join '' '' (seg # rest)
                                @ '' command:'' @ [CHR 0x0A] @ ''* ''
                                @ join [CHR 0x0A, CHR ''*'', CHR '' '']
                                    (map (\<lambda>p. name p @ [CHR '':'', CHR 0x0A] @ description p)
                                       (parameters c)))))"
proof -
  have ex: "exclude_params c \<longleftrightarrow> seg \<in> set COMMANDS_TO_EXCLUDE"
    using assms by (simp add: exclude_params_def)
  have fmt: "formatted_cmd_name c = join '' '' (seg # rest)"
    using assms by (simp add: formatted_cmd_name_def)
  show ?thesis
  proof (cases "seg \<in> set COMMANDS_TO_EXCLUDE")
    case True
    then show ?thesis
      using ex fmt
      by (simp add: command_to_schema_def command_fragment_def params_description_def
          formatted_params_list_def)
  next
    case False
    then show ?thesis
      using ex fmt params_properties_keys [of "parameters c"]
        params_properties_distinct [of "parameters c"]
        params_properties_length [of "parameters c"]
        params_properties_distinct_names [of "parameters c"]
      by (simp add: command_to_schema_def command_fragment_def params_description_def
          formatted_params_list_def params_properties_map_of)
  qed
qed

theorem command_to_schema_exclusion_witness:
  "dict_path (command_fragment \<lparr> command_name = ''local_invoke'', command_description = [],
        parameters = [format_param sample_bar] \<rparr>) [''properties'', ''parameters'', ''properties'']
     = Some (PDict [])
   \<and> dict_path (command_fragment \<lparr> command_name = ''local_invoke'', command_description = [],
        parameters = [format_param sample_bar] \<rparr>) [''properties'', ''parameters'', ''description'']
     = Some (PStr (''Available parameters for the local invoke command:'' @ [CHR 0x0A]))
   \<and> dict_path (command_fragment \<lparr> command_name = ''foo'', command_description = [],
        parameters = [format_param sample_bar] \<rparr>) [''properties'', ''parameters'', ''properties'']
     = Some (PDict [(''bar'', PDict (param_to_schema (format_param sample_bar)))])"
  using
    command_to_schema_exclusion [where c = "\<lparr> command_name = ''local_invoke'',
        command_description = [], parameters = [format_param sample_bar] \<rparr>"
      and seg = "''local''" and rest = "[''invoke'']"]
    command_to_schema_exclusion [where c = "\<lparr> command_name = ''foo'',
        command_description = [], parameters = [format_param sample_bar] \<rparr>"
      and seg = "''foo''" and rest = "[]"]
  by (simp add: COMMANDS_TO_EXCLUDE_def format_param_name sample_bar_def or_empty_def)

text \<open>
  C5 as stated, with one entry per parameter, fails: the command \<open>foo\<close>, outside the
  exclusion list, with two parameters named \<open>bar\<close> has a single entry, which holds the
  second parameter's fragment.
\<close>

theorem params_properties_duplicate_names:
  "''foo'' \<notin> set COMMANDS_TO_EXCLUDE
   \<and> split CHR ''_'' ''foo'' = [''foo'']
   \<and> length [format_param sample_bar,
              format_param (sample_bar \<lparr> param_help := Some ''Second bar'' \<rparr>)] = 2
   \<and> dict_path
        (command_fragment
           \<lparr> command_name = ''foo'', command_description = [],
             parameters = [format_param sample_bar,
                           format_param (sample_bar \<lparr> param_help := Some ''Second bar'' \<rparr>)] \<rparr>)
        [''properties'', ''parameters'', ''properties'']
      = Some (PDict [(''bar'', PDict [(''title'', PStr ''bar''), (''type'', PStr ''string''),
                                      (''description'', PStr ''Second bar''),
                                      (''default'', PStr ''baz'')])])"
  by (simp add: COMMANDS_TO_EXCLUDE_def command_fragment_def exclude_params_def
      params_properties_def param_to_schema_def dict_update_def format_param_def
      formatted_param_type_def sample_bar_def or_empty_def lower_def lower_char_def
      uppercase_letters_def lowercase_letters_def clean_text_def strip_def remove_char_def
      is_space_def Let_def)

section \<open>The assembled document\<close>

text \<open>
  C1. Whatever packages are registered, a document returned by \<^verbatim>\<open>generate_schema\<close> has
  the fixed root keys: \<open>$schema\<close> is the draft-04 URI, \<open>type\<close> is \<open>object\<close>, \<open>required\<close>
  is the list holding \<open>version\<close>, \<open>additionalProperties\<close> is false, and
  \<open>properties.version\<close> has type \<open>number\<close> and default \<open>0.1\<close>. A document is returned
  exactly when every registered package can be extracted.
\<close>

theorem generate_schema_root_keys:
  "(generate_schema to_key import_module packages = Inr doc
      \<longrightarrow> dict_path doc [''$schema''] = Some (PStr ''http://json-schema.org/draft-04/schema'')
          \<and> dict_path doc [''type''] = Some (PStr ''object'')
          \<and> dict_path doc [''required''] = Some (PList [PStr ''version''])
          \<and> dict_path doc [''additionalProperties''] = Some (PBool False)
          \<and> dict_path doc [''properties'', ''version'', ''type''] = Some (PStr ''number'')
          \<and> dict_path doc [''properties'', ''version'', ''default''] = Some (PFloat (1 / 10)))
   \<and> ((\<exists>d. generate_schema to_key import_module packages = Inr d)
        \<longleftrightarrow> (\<forall>p\<in>set packages.
               \<exists>cs. retrieve_command_structure to_key import_module p = Inr cs))"
proof -
  have "(\<exists>d. generate_schema to_key import_module packages = Inr d)
        \<longleftrightarrow> (\<forall>p\<in>set packages.
               \<exists>cs. retrieve_command_structure to_key import_module p = Inr cs)"
    by (simp only: generate_schema_Inr_iff extend_commands_Inr_iff)
  moreover have "dict_path doc [''$schema''] = Some (PStr ''http://json-schema.org/draft-04/schema'')
          \<and> dict_path doc [''type''] = Some (PStr ''object'')
          \<and> dict_path doc [''required''] = Some (PList [PStr ''version''])
          \<and> dict_path doc [''additionalProperties''] = Some (PBool False)
          \<and> dict_path doc [''properties'', ''version'', ''type''] = Some (PStr ''number'')
          \<and> dict_path doc [''properties'', ''version'', ''default''] = Some (PFloat (1 / 10))"
    if "generate_schema to_key import_module packages = Inr doc"
    using that
    by (auto simp: generate_schema_def Let_def SCHEMA_DRAFT_def split: sum.splits)
  ultimately show ?thesis by blast
qed

theorem generate_schema_root_keys_witness:
  "\<exists>d. generate_schema sample_to_key sample_import_module
            [''samcli.commands.foo'', ''samcli.commands.grp''] = Inr d
       \<and> dict_path d [''required''] = Some (PList [PStr ''version''])
       \<and> dict_path d [''additionalProperties''] = Some (PBool False)
       \<and> dict_path d [''properties'', ''version'', ''default''] = Some (PFloat (1 / 10))"
proof -
  let ?ps = "[''samcli.commands.foo'', ''samcli.commands.grp'']"
  have r: "\<forall>p\<in>set ?ps. \<exists>cs. retrieve_command_structure sample_to_key sample_import_module p = Inr cs"
    by (simp add: retrieve_command_structure_def sample_import_module_def sample_foo_def
        sample_grp_def)
  note t = generate_schema_root_keys [of sample_to_key sample_import_module ?ps]
  from t [THEN conjunct2, THEN iffD2, OF r]
  obtain d where d: "generate_schema sample_to_key sample_import_module ?ps = Inr d" ..
  from t [of d, THEN conjunct1, rule_format, OF d] d show ?thesis by (intro exI [of _ d]) simp
qed

text \<open>
  C7. When the packages yield the commands \<open>commands\<close>, in accumulation order,
  \<^verbatim>\<open>generate_schema\<close> returns a document and raises nothing, also when two commands
  share a name. The \<open>properties\<close> of the environment wrapper hold, under every name, the
  fragment of the last command of that name; so of two commands with one name, the
  later one's fragment replaces the earlier one's.
\<close>

theorem generate_schema_duplicate_names:
  assumes "extend_commands to_key import_module packages [] = Inr commands"
  shows "\<exists>doc. generate_schema to_key import_module packages = Inr doc
      \<and> dict_path doc [''patternProperties'', ''^.+$'', ''properties'']
          = Some (PDict (environment_properties commands))
      \<and> (\<forall>n. map_of (environment_properties commands) n
             = map_option command_fragment (find (\<lambda>c. command_name c = n) (rev commands)))
      \<and> (\<forall>i j. i < j \<and> j < length commands
               \<and> command_name (commands ! i) = command_name (commands ! j)
               \<and> (\<forall>k. j < k \<and> k < length commands
                      \<longrightarrow> command_name (commands ! k) \<noteq> command_name (commands ! j))
             \<longrightarrow> map_of (environment_properties commands) (command_name (commands ! i))
                  = Some (command_fragment (commands ! j)))"
proof -
  have doc: "generate_schema to_key import_module packages
      = Inr (PDict
          [(''$schema'', PStr SCHEMA_DRAFT), (''title'', PStr TITLE), (''type'', PStr ''object''),
           (''properties'', PDict [(''version'',
              PDict [(''title'', PStr ''Config version''), (''type'', PStr ''number''),
                     (''default'', PFloat (1 / 10))])]),
           (''required'', PList [PStr ''version'']),
           (''additionalProperties'', PBool False),
           (''patternProperties'', PDict [(ENVIRONMENT_REGEX,
              PDict [(''title'', PStr ''Environment''),
                     (''properties'', PDict (environment_properties commands))])])])"
    using assms by (simp add: generate_schema_def Let_def)
  have last_wins: "map_of (environment_properties commands) (command_name (commands ! i))
        = Some (command_fragment (commands ! j))"
    if "i < j" "j < length commands"
      "command_name (commands ! i) = command_name (commands ! j)"
      "\<forall>k. j < k \<and> k < length commands
          \<longrightarrow> command_name (commands ! k) \<noteq> command_name (commands ! j)"
    for i j
  proof -
    have "find (\<lambda>c. command_name c = command_name (commands ! j)) (rev commands)
        = Some (commands ! j)"
      using that(2,4) by (intro find_rev_last) simp_all
    then show ?thesis
      by (simp add: environment_properties_map_of that(3))
  qed
  have "dict_path
      (PDict
          [(''$schema'', PStr SCHEMA_DRAFT), (''title'', PStr TITLE), (''type'', PStr ''object''),
           (''properties'', PDict [(''version'',
              PDict [(''title'', PStr ''Config version''), (''type'', PStr ''number''),
                     (''default'', PFloat (1 / 10))])]),
           (''required'', PList [PStr ''version'']),
           (''additionalProperties'', PBool False),
           (''patternProperties'', PDict [(ENVIRONMENT_REGEX,
              PDict [(''title'', PStr ''Environment''),
                     (''properties'', PDict (environment_properties commands))])])])
      [''patternProperties'', ''^.+$'', ''properties'']
          = Some (PDict (environment_properties commands))"
    by (simp add: ENVIRONMENT_REGEX_def)
  then have path: "dict_path
      (PDict
          [(''$schema'', PStr SCHEMA_DRAFT), (''title'', PStr TITLE), (''type'', PStr ''object''),
           (''properties'', PDict [(''version'',
              PDict [(''title'', PStr ''Config version''), (''type'', PStr ''number''),
                     (''default'', PFloat (1 / 10))])]),
           (''required'', PList [PStr ''version'']),
           (''additionalProperties'', PBool False),
           (''patternProperties'', PDict [(ENVIRONMENT_REGEX,
              PDict [(''title'', PStr ''Environment''),
                     (''properties'', PDict (environment_properties commands))])])])
      [''patternProperties'', ''^.+$'', ''properties'']
          = Some (PDict (environment_properties commands))" .
  have every: "\<forall>n. map_of (environment_properties commands) n
             = map_option command_fragment (find (\<lambda>c. command_name c = n) (rev commands))"
    by (simp add: environment_properties_map_of)
  have later: "\<forall>i j. i < j \<and> j < length commands
               \<and> command_name (commands ! i) = command_name (commands ! j)
               \<and> (\<forall>k. j < k \<and> k < length commands
                      \<longrightarrow> command_name (commands ! k) \<noteq> command_name (commands ! j))
             \<longrightarrow> map_of (environment_properties commands) (command_name (commands ! i))
                  = Some (command_fragment (commands ! j))"
  proof (intro allI impI)
    fix i j
    assume h: "i < j \<and> j < length commands
               \<and> command_name (commands ! i) = command_name (commands ! j)
               \<and> (\<forall>k. j < k \<and> k < length commands
                      \<longrightarrow> command_name (commands ! k) \<noteq> command_name (commands ! j))"
    show "map_of (environment_properties commands) (command_name (commands ! i))
                  = Some (command_fragment (commands ! j))"
      by (rule last_wins) (simp_all add: h)
  qed
  show ?thesis
    by (intro exI conjI) (rule doc, rule path, rule every, rule later)
qed

theorem generate_schema_duplicate_names_witness:
  "\<exists>doc. generate_schema sample_to_key sample_import_module
            [''samcli.commands.foo'', ''samcli.commands.other.foo''] = Inr doc
       \<and> dict_path doc [''patternProperties'', ''^.+$'', ''properties'', ''foo'', ''description'']
          = Some (PStr ''Other foo command'')"
proof -
  let ?ps = "[''samcli.commands.foo'', ''samcli.commands.other.foo'']"
  let ?cs = "[command_schema ''foo'' sample_foo, command_schema ''foo'' sample_other_foo]"
  have e: "extend_commands sample_to_key sample_import_module ?ps [] = Inr ?cs"
    by (simp add: retrieve_command_structure_def sample_import_module_def sample_foo_def
        sample_other_foo_def sample_to_key_def short_name_def)
  from generate_schema_duplicate_names [OF e]
  obtain doc where d: "generate_schema sample_to_key sample_import_module ?ps = Inr doc"
    and p: "dict_path doc [''patternProperties'', ''^.+$'', ''properties'']
          = Some (PDict (environment_properties ?cs))"
    and w: "\<forall>i j. i < j \<and> j < length ?cs
               \<and> command_name (?cs ! i) = command_name (?cs ! j)
               \<and> (\<forall>k. j < k \<and> k < length ?cs
                      \<longrightarrow> command_name (?cs ! k) \<noteq> command_name (?cs ! j))
             \<longrightarrow> map_of (environment_properties ?cs) (command_name (?cs ! i))
                  = Some (command_fragment (?cs ! j))"
    by (elim exE conjE)
  from w [rule_format, of 0 1]
  have m: "map_of (environment_properties ?cs) ''foo''
      = Some (command_fragment (command_schema ''foo'' sample_other_foo))"
    by (simp add: command_schema_def)
  have f: "dict_path (command_fragment (command_schema ''foo'' sample_other_foo)) [''description'']
      = Some (PStr ''Other foo command'')"
    by (simp add: command_fragment_def command_schema_def sample_other_foo_def or_else_def
        or_empty_def clean_text_def strip_def remove_char_def is_space_def)
  have q: "dict_path (PDict (environment_properties ?cs)) [''foo'', ''description'']
      = Some (PStr ''Other foo command'')"
    using m f by simp
  have "dict_path doc ([''patternProperties'', ''^.+$'', ''properties'']
          @ [''foo'', ''description''])
      = Some (PStr ''Other foo command'')"
    unfolding dict_path_append p option.case by (rule q)
  then have "dict_path doc [''patternProperties'', ''^.+$'', ''properties'', ''foo'', ''description'']
      = Some (PStr ''Other foo command'')"
    by simp
  with d show ?thesis by (intro exI conjI)
qed

end
